theory Spec2Isabelle
  imports Complex_Main
begin

section \<open>Text primitives\<close>

text \<open>
  The analysis text is a Python \<open>str\<close>. It is embedded as a \<^typ>\<open>string\<close>: ASCII text
  character by character, anything beyond ASCII as the bytes of its UTF-8 encoding.
  \<open>str.lower()\<close>, and the classes \<open>\d\<close> and \<open>\s\<close> of the patterns below, are embedded
  on ASCII; Python's Unicode-aware treatment of characters beyond ASCII (case folding of
  non-ASCII letters, non-ASCII digits and spaces) is outside the embedding.
\<close>

definition lower_char :: "char \<Rightarrow> char" where
  "lower_char c =
     (let n = (of_char c :: nat)
      in if 65 \<le> n \<and> n \<le> 90 then char_of (n + 32) else c)"



definition lower :: "string \<Rightarrow> string" where
  \<comment> \<open>\<open>s.lower()\<close>\<close>
  "lower s = map lower_char s"



fun starts_with :: "string \<Rightarrow> string \<Rightarrow> bool" where
  \<comment> \<open>\<open>starts_with sub text\<close>: \<open>text.startswith(sub)\<close>\<close>
  "starts_with [] text = True"
| "starts_with (p # ps) [] = False"
| "starts_with (p # ps) (c # cs) = (p = c \<and> starts_with ps cs)"

fun py_in :: "string \<Rightarrow> string \<Rightarrow> bool" where
  \<comment> \<open>\<open>py_in sub text\<close>: the substring test \<open>sub in text\<close>\<close>
  "py_in sub [] = (sub = [])"
| "py_in sub (c # cs) = (starts_with sub (c # cs) \<or> py_in sub cs)"

definition check_keywords_present :: "string \<Rightarrow> string list \<Rightarrow> bool" where
  \<comment> \<open>\<open>any(keyword.lower() in text_lower for keyword in keywords)\<close>\<close>
  "check_keywords_present analysis_text keywords =
     (let text_lower = lower analysis_text
      in list_ex (\<lambda>keyword. py_in (lower keyword) text_lower) keywords)"

definition check_all_keywords_present :: "string \<Rightarrow> string list \<Rightarrow> bool" where
  "check_all_keywords_present analysis_text keywords =
     (let text_lower = lower analysis_text
      in list_all (\<lambda>keyword. py_in (lower keyword) text_lower) keywords)"

section \<open>Patterns\<close>

text \<open>
  The four patterns of the extractors use literal characters, the classes \<open>\d\<close>, \<open>\s\<close> and
  \<open>.\<close>, greedy \<open>+\<close>, \<open>*\<close> and \<open>?\<close>, the lazy \<open>*?\<close>, and one capturing group.
  A pattern is embedded as a term of \<open>rx\<close>; the matcher is a backtracking matcher that lists
  the ways a pattern can match at the start of a text in the order in which the \<open>re\<close> module
  tries them, so that the head of the list is the match \<open>re\<close> reports.
\<close>

datatype atom =
    Chr char    \<comment> \<open>a literal character\<close>
  | Digit       \<comment> \<open>\<open>\d\<close>\<close>
  | Space       \<comment> \<open>\<open>\s\<close>\<close>
  | Dot         \<comment> \<open>\<open>.\<close>: any character but a newline\<close>

datatype rx =
    One atom
  | Seq rx rx
  | Opt rx          \<comment> \<open>\<open>(?:r)?\<close>, greedy\<close>
  | Plus atom       \<comment> \<open>\<open>a+\<close>, greedy\<close>
  | Star atom       \<comment> \<open>\<open>a*\<close>, greedy\<close>
  | LazyStar atom   \<comment> \<open>\<open>a*?\<close>\<close>
  | Group rx        \<comment> \<open>\<open>(r)\<close>, the capturing group\<close>

definition is_digit :: "char \<Rightarrow> bool" where
  "is_digit c = (let n = (of_char c :: nat) in 48 \<le> n \<and> n \<le> 57)"

definition is_space :: "char \<Rightarrow> bool" where
  \<comment> \<open>space, \<open>\t \n \v \f \r\<close> and the separators \<open>\x1c\<close> to \<open>\x1f\<close>\<close>
  "is_space c = (let n = (of_char c :: nat) in n = 32 \<or> (9 \<le> n \<and> n \<le> 13) \<or> (28 \<le> n \<and> n \<le> 31))"

fun atom_ok :: "atom \<Rightarrow> char \<Rightarrow> bool" where
  "atom_ok (Chr x) c = (c = x)"
| "atom_ok Digit c = is_digit c"
| "atom_ok Space c = is_space c"
| "atom_ok Dot c = (c \<noteq> CHR 0x0A)"

fun run_length :: "atom \<Rightarrow> string \<Rightarrow> nat" where
  \<comment> \<open>how many leading characters of the text the atom accepts\<close>
  "run_length a [] = 0"
| "run_length a (c # cs) = (if atom_ok a c then Suc (run_length a cs) else 0)"

fun down_to :: "nat \<Rightarrow> nat \<Rightarrow> nat list" where
  \<comment> \<open>\<open>down_to lo n = [lo + n, ..., lo + 1, lo]\<close>\<close>
  "down_to lo 0 = [lo]"
| "down_to lo (Suc n) = (lo + Suc n) # down_to lo n"

type_synonym mstate = "string option \<times> string"
  \<comment> \<open>what the group has captured so far, and the text still to be matched\<close>

fun matches :: "rx \<Rightarrow> mstate \<Rightarrow> mstate list" where
  "matches (One a) (g, s) =
     (case s of [] \<Rightarrow> [] | c # cs \<Rightarrow> if atom_ok a c then [(g, cs)] else [])"
| "matches (Seq r1 r2) st = concat (map (matches r2) (matches r1 st))"
| "matches (Opt r) st = matches r st @ [st]"
| "matches (Plus a) (g, s) =
     (case run_length a s of 0 \<Rightarrow> []
      | Suc n \<Rightarrow> map (\<lambda>k. (g, drop k s)) (down_to 1 n))"
| "matches (Star a) (g, s) = map (\<lambda>k. (g, drop k s)) (down_to 0 (run_length a s))"
| "matches (LazyStar a) (g, s) = map (\<lambda>k. (g, drop k s)) (rev (down_to 0 (run_length a s)))"
| "matches (Group r) (g, s) =
     map (\<lambda>(g', s'). (Some (take (length s - length s') s), s')) (matches r (g, s))"

definition match_at :: "rx \<Rightarrow> string \<Rightarrow> (string \<times> nat) option" where
  \<comment> \<open>the match at the start of the text: what the group captured, and the length matched\<close>
  "match_at r s =
     (case matches r (None, s) of [] \<Rightarrow> None
      | (g, s') # _ \<Rightarrow> Some (case g of None \<Rightarrow> [] | Some x \<Rightarrow> x, length s - length s'))"

fun findall_from :: "rx \<Rightarrow> nat \<Rightarrow> string \<Rightarrow> string list" where
  \<comment> \<open>\<open>re.findall\<close> for a pattern with one group that matches no empty text: the captures of
      the successive non-overlapping matches, left to right; \<open>skip\<close> counts the characters
      still covered by the previous match\<close>
  "findall_from r skip [] = []"
| "findall_from r skip (c # cs) =
     (if skip > 0 then findall_from r (skip - 1) cs
      else (case match_at r (c # cs) of
              None \<Rightarrow> findall_from r 0 cs
            | Some (g, n) \<Rightarrow> g # findall_from r (n - 1) cs))"

definition findall :: "rx \<Rightarrow> string \<Rightarrow> string list" where
  "findall r s = findall_from r 0 s"


section \<open>Numbers\<close>

text \<open>
  \<open>int(s)\<close> and \<open>float(s)\<close> are only applied to captured groups, which are digit strings
  with at most one inner point, so neither can raise. \<open>float\<close> is embedded as the exact
  decimal value, a rational; Python rounds it to the nearest binary64. The rounding is
  monotone and keeps 0, 1, 4, 5 and 15 fixed, so a comparison with one of the thresholds can
  only differ from the exact one for a decimal within half a unit in the last place of the
  threshold.
\<close>

definition digit_val :: "char \<Rightarrow> nat" where
  "digit_val c = of_char c - 48"

definition digits_val :: "string \<Rightarrow> nat" where
  "digits_val s = foldl (\<lambda>acc c. 10 * acc + digit_val c) 0 s"


definition py_float :: "string \<Rightarrow> rat" where
  "py_float s =
     (let ip = takeWhile (\<lambda>c. c \<noteq> CHR ''.'') s;
          fp = drop (Suc (length ip)) s
      in of_nat (digits_val ip) + of_nat (digits_val fp) / 10 ^ length fp)"


section \<open>Extraction utilities\<close>

definition number_rx :: rx where
  \<comment> \<open>\<open>(\d+(?:\.\d+)?)\<close>\<close>
  "number_rx = Group (Seq (Plus Digit) (Opt (Seq (One (Chr CHR ''.'')) (Plus Digit))))"



definition irr_rx :: rx where
  \<comment> \<open>\<open>irr.*?(\d+(?:\.\d+)?)\s*%\<close>\<close>
  "irr_rx =
     Seq (One (Chr CHR ''i'')) (Seq (One (Chr CHR ''r'')) (Seq (One (Chr CHR ''r'')) (Seq (LazyStar Dot)
       (Seq number_rx (Seq (Star Space) (One (Chr CHR ''%'')))))))"

definition yield_rx :: rx where
  \<comment> \<open>\<open>(\d+(?:\.\d+)?)\s*%\<close>\<close>
  "yield_rx = Seq number_rx (Seq (Star Space) (One (Chr CHR ''%'')))"



definition extract_irr_percentage :: "string \<Rightarrow> rat" where
  "extract_irr_percentage analysis_text =
     (case findall irr_rx (lower analysis_text) of
        m # _ \<Rightarrow> py_float m
      | [] \<Rightarrow> 0)"

fun first_yield :: "string list \<Rightarrow> rat" where
  \<comment> \<open>the loop \<open>for match in yield_matches\<close> with its early return\<close>
  "first_yield [] = 0"
| "first_yield (m # ms) =
     (let yield_val = py_float m in if yield_val > 1 then yield_val else first_yield ms)"

definition extract_yield_percentage :: "string \<Rightarrow> rat" where
  "extract_yield_percentage analysis_text = first_yield (findall yield_rx analysis_text)"


section \<open>Settings\<close>

definition MIN_DIVIDEND_YIELD :: rat where "MIN_DIVIDEND_YIELD = 4"



definition FUND_TYPES :: "string list" where
  "FUND_TYPES =
     [''venture fund'', ''pe fund'', ''hedge fund'', ''fund investment'', ''pooled investment'']"

datatype EvaluationStatus = MET | NOT_MET

fun STATUS_COLORS :: "EvaluationStatus \<Rightarrow> string" where
  \<comment> \<open>the green and the red circle, U+1F7E2 and U+1F534, in UTF-8\<close>
  "STATUS_COLORS MET = [CHR 0xF0, CHR 0x9F, CHR 0x9F, CHR 0xA2]"
| "STATUS_COLORS NOT_MET = [CHR 0xF0, CHR 0x9F, CHR 0x94, CHR 0xB4]"


section \<open>Verdicts\<close>

text \<open>
  An explanation is a Python f-string. It is kept as the list of its pieces: the literal
  text, and the interpolated numbers as numbers, since the decimal rendering of a float by
  \<open>repr\<close> is not part of the embedding.
\<close>

datatype piece = Text string | FloatVal rat | IntVal int

record verdict =
  status :: EvaluationStatus
  explanation :: "piece list"
  color :: string

definition create_evaluation_result :: "EvaluationStatus \<Rightarrow> piece list \<Rightarrow> verdict" where
  "create_evaluation_result st ex = \<lparr>status = st, explanation = ex, color = STATUS_COLORS st\<rparr>"




section \<open>Criterion 1: Geography/Structure\<close>

definition check_gcc_jv_opportunity :: "string \<Rightarrow> bool" where
  "check_gcc_jv_opportunity analysis_text =
     (let gcc_present = check_keywords_present analysis_text [''gcc''];
          jv_present = check_keywords_present analysis_text [''joint venture'', ''jv''];
          expansion_indicators = check_keywords_present analysis_text
            [''expansion'', ''partner'', ''business model'', ''proven'']
      in gcc_present \<and> jv_present \<and> expansion_indicators)"

definition check_dividend_opportunity :: "string \<Rightarrow> bool" where
  "check_dividend_opportunity analysis_text =
     (let dividend_present = check_keywords_present analysis_text [''dividend'']
      in if \<not> dividend_present then False
         else (let yield_percentage = extract_yield_percentage analysis_text
               in yield_percentage > MIN_DIVIDEND_YIELD))"

definition check_kgi_opportunity :: "string \<Rightarrow> bool" where
  "check_kgi_opportunity analysis_text =
     (let kgi_present = check_keywords_present analysis_text [''kgi''];
          coinvestment_present = check_keywords_present analysis_text
            [''co-investment'', ''participation'']
      in kgi_present \<and> coinvestment_present)"

definition evaluate_geography_structure :: "string \<Rightarrow> verdict" where
  "evaluate_geography_structure analysis_text =
     (let gcc_jv_found = check_gcc_jv_opportunity analysis_text;
          dividend_found = check_dividend_opportunity analysis_text;
          kgi_found = check_kgi_opportunity analysis_text
      in if gcc_jv_found then
           create_evaluation_result MET
             [Text ''GCC JV opportunity identified with expansion plans and partner structure'']
         else if dividend_found then
           create_evaluation_result MET
             [Text ''Dividend-paying investment with yield greater than '',
              FloatVal MIN_DIVIDEND_YIELD, Text ''%'']
         else if kgi_found then
           create_evaluation_result MET [Text ''KGI co-investment opportunity identified'']
         else
           create_evaluation_result NOT_MET
             [Text ''Does not meet any of the three required categories: GCC JV, dividend-paying (>'',
              FloatVal MIN_DIVIDEND_YIELD, Text ''%), or KGI co-investment''])"


section \<open>Criterion 2: Financial Milestones\<close>







section \<open>Criterion 3: Asset Class Exclusion\<close>

definition check_fund_investment :: "string \<Rightarrow> bool" where
  "check_fund_investment analysis_text = check_keywords_present analysis_text FUND_TYPES"

definition check_direct_investment :: "string \<Rightarrow> bool" where
  "check_direct_investment analysis_text =
     check_keywords_present analysis_text
       [''company'', ''business'', ''startup'', ''direct investment'']"

definition evaluate_asset_class_exclusion :: "string \<Rightarrow> verdict" where
  "evaluate_asset_class_exclusion analysis_text =
     (let is_fund = check_fund_investment analysis_text
      in if is_fund then
           create_evaluation_result NOT_MET
             [Text ''Fund investment identified - excluded due to team bandwidth and 2025 objectives'']
         else
           (let is_direct = check_direct_investment analysis_text
            in if is_direct then
                 create_evaluation_result MET [Text ''Direct company investment identified'']
               else
                 create_evaluation_result NOT_MET
                   [Text ''Asset class information unclear or absent'']))"


section \<open>Criterion 4: Investor Syndication\<close>




section \<open>Criterion 5: Fee Terms\<close>

definition check_no_management_fees :: "string \<Rightarrow> bool" where
  "check_no_management_fees analysis_text =
     check_keywords_present analysis_text [''no management fee'', ''no direct management fee'']"

definition check_management_fees_present :: "string \<Rightarrow> bool" where
  "check_management_fees_present analysis_text =
     (let management_fee_present = check_keywords_present analysis_text [''management fee''];
          no_management_fee = check_no_management_fees analysis_text
      in management_fee_present \<and> \<not> no_management_fee)"

definition evaluate_fee_terms :: "string \<Rightarrow> verdict" where
  "evaluate_fee_terms analysis_text =
     (let no_management_fees = check_no_management_fees analysis_text;
          management_fees_present = check_management_fees_present analysis_text
      in if no_management_fees then
           create_evaluation_result MET
             [Text ''No direct management fees that would impact KV P&L'']
         else if management_fees_present then
           create_evaluation_result NOT_MET
             [Text ''Management fees present that would hit KV P&L'']
         else
           create_evaluation_result NOT_MET
             [Text ''Fee information not mentioned - missing information counts as red''])"


section \<open>Criterion 6: Investment Size\<close>



section \<open>Criterion 7: Process Timeline\<close>




section \<open>Criterion 8: Return Threshold\<close>




section \<open>Criterion 9: Sector Focus\<close>





section \<open>Aggregator\<close>





definition generate_overall_recommendation :: "int \<Rightarrow> int \<Rightarrow> string" where
  "generate_overall_recommendation met_count total_count =
     (if met_count \<ge> 7 then ''RECOMMEND for further due diligence''
      else if met_count \<ge> 5 then ''CONDITIONAL RECOMMEND - address key gaps''
      else ''DO NOT RECOMMEND - insufficient criteria met'')"


section \<open>Basic facts\<close>

lemma status_create: "status (create_evaluation_result st ex) = st"
  by (simp add: create_evaluation_result_def)








section \<open>The recommendation tiers\<close>

text \<open>
  C1, as the code has it: the recommendation is the first tier for a count of at least 7,
  the second for 5 and 6, the third for at most 4; the second and third wordings are written
  with the ASCII hyphen-minus; the total count has no influence.
\<close>

theorem C1_recommendation_tiers:
  "(met_count \<ge> 7 \<longrightarrow>
      generate_overall_recommendation met_count total_count =
        ''RECOMMEND for further due diligence'')
   \<and> (5 \<le> met_count \<and> met_count \<le> 6 \<longrightarrow>
      generate_overall_recommendation met_count total_count =
        ''CONDITIONAL RECOMMEND - address key gaps'')
   \<and> (met_count \<le> 4 \<longrightarrow>
      generate_overall_recommendation met_count total_count =
        ''DO NOT RECOMMEND - insufficient criteria met'')
   \<and> generate_overall_recommendation met_count total_count =
        generate_overall_recommendation met_count other_total"
  by (simp add: generate_overall_recommendation_def)

theorem C1_recommendation_tiers_witness:
  "generate_overall_recommendation 7 9 = ''RECOMMEND for further due diligence''
   \<and> generate_overall_recommendation 6 9 = ''CONDITIONAL RECOMMEND - address key gaps''
   \<and> generate_overall_recommendation 5 9 = ''CONDITIONAL RECOMMEND - address key gaps''
   \<and> generate_overall_recommendation 4 9 = ''DO NOT RECOMMEND - insufficient criteria met''
   \<and> generate_overall_recommendation 7 9 = generate_overall_recommendation 7 0"
  using C1_recommendation_tiers [of 7 9 0] C1_recommendation_tiers [of 6 9 0]
    C1_recommendation_tiers [of 5 9 0] C1_recommendation_tiers [of 4 9 0]
  by auto

text \<open>
  The wording of the second tier with an em dash (U+2014, in UTF-8 the bytes E2 80 94) is
  not what the aggregator returns for a count of 5.
\<close>

theorem C1_em_dash_counterexample:
  "generate_overall_recommendation 5 9 \<noteq>
     ''CONDITIONAL RECOMMEND '' @ [CHR 0xE2, CHR 0x80, CHR 0x94] @ '' address key gaps''"
  by (simp add: generate_overall_recommendation_def)


section \<open>Investment size\<close>




section \<open>Return threshold\<close>




section \<open>Process timeline\<close>




section \<open>Sector focus\<close>




section \<open>Dividend yield\<close>



section \<open>Geography/Structure: the dividend branch\<close>



text \<open>
  C10: the yield extractor takes the first percentage above 1 wherever it stands. The text
  \<open>pays a dividend; IRR of 20%\<close> contains the word dividend and one percentage, which is
  an IRR; the extractor returns 20, neither the GCC joint-venture nor the KGI branch holds,
  the dividend branch fires and Geography/Structure is MET as a dividend-paying investment.
\<close>

theorem C10_yield_not_anchored:
  "check_keywords_present ''pays a dividend; IRR of 20%'' [''dividend'']
   \<and> findall yield_rx ''pays a dividend; IRR of 20%'' = [''20'']
   \<and> extract_irr_percentage ''pays a dividend; IRR of 20%'' = 20
   \<and> extract_yield_percentage ''pays a dividend; IRR of 20%'' = 20
   \<and> \<not> check_gcc_jv_opportunity ''pays a dividend; IRR of 20%''
   \<and> \<not> check_kgi_opportunity ''pays a dividend; IRR of 20%''
   \<and> check_dividend_opportunity ''pays a dividend; IRR of 20%''
   \<and> evaluate_geography_structure ''pays a dividend; IRR of 20%'' =
       create_evaluation_result MET
         [Text ''Dividend-paying investment with yield greater than '', FloatVal 4,
          Text ''%'']"
proof -
  have kw: "check_keywords_present ''pays a dividend; IRR of 20%'' [''dividend'']"
    by code_simp
  have ms: "findall yield_rx ''pays a dividend; IRR of 20%'' = [''20'']"
    by code_simp
  have irr: "extract_irr_percentage ''pays a dividend; IRR of 20%'' = 20"
    by code_simp
  have yld: "extract_yield_percentage ''pays a dividend; IRR of 20%'' = 20"
    by code_simp
  have gcc: "\<not> check_gcc_jv_opportunity ''pays a dividend; IRR of 20%''"
    by code_simp
  have kgi: "\<not> check_kgi_opportunity ''pays a dividend; IRR of 20%''"
    by code_simp
  have dvd: "check_dividend_opportunity ''pays a dividend; IRR of 20%''"
    using kw yld by (simp add: check_dividend_opportunity_def MIN_DIVIDEND_YIELD_def)
  have res: "evaluate_geography_structure ''pays a dividend; IRR of 20%'' =
       create_evaluation_result MET
         [Text ''Dividend-paying investment with yield greater than '', FloatVal 4,
          Text ''%'']"
    using gcc dvd by (simp add: evaluate_geography_structure_def MIN_DIVIDEND_YIELD_def)
  from kw ms irr yld gcc kgi dvd res show ?thesis
    by blast
qed


section \<open>Asset class exclusion\<close>

text \<open>
  C8: the Asset Class Exclusion criterion checks the fund branch first. If one of the
  fund-type phrases (venture fund, pe fund, hedge fund, fund investment, pooled investment)
  is present, the result is NOT MET with the fund-exclusion explanation, whether or not a
  direct-investment keyword such as \<open>company\<close> is present too. With no fund-type phrase, a
  direct-investment keyword gives MET, and the absence of both gives NOT MET as unclear.
\<close>

theorem C8_asset_class_exclusion:
  "FUND_TYPES =
     [''venture fund'', ''pe fund'', ''hedge fund'', ''fund investment'', ''pooled investment'']
   \<and> check_fund_investment t = check_keywords_present t FUND_TYPES
   \<and> check_direct_investment t =
       check_keywords_present t [''company'', ''business'', ''startup'', ''direct investment'']
   \<and> (check_fund_investment t \<longrightarrow>
        evaluate_asset_class_exclusion t =
          create_evaluation_result NOT_MET
            [Text ''Fund investment identified - excluded due to team bandwidth and 2025 objectives''])
   \<and> (\<not> check_fund_investment t \<and> check_direct_investment t \<longrightarrow>
        evaluate_asset_class_exclusion t =
          create_evaluation_result MET [Text ''Direct company investment identified''])
   \<and> (\<not> check_fund_investment t \<and> \<not> check_direct_investment t \<longrightarrow>
        evaluate_asset_class_exclusion t =
          create_evaluation_result NOT_MET [Text ''Asset class information unclear or absent''])
   \<and> (status (evaluate_asset_class_exclusion t) = MET \<longleftrightarrow>
        \<not> check_fund_investment t \<and> check_direct_investment t)"
  by (simp add: evaluate_asset_class_exclusion_def Let_def status_create
        check_fund_investment_def check_direct_investment_def FUND_TYPES_def [symmetric])

theorem C8_asset_class_exclusion_witness:
  "check_fund_investment ''The company is raising a venture fund''
   \<and> check_direct_investment ''The company is raising a venture fund''
   \<and> evaluate_asset_class_exclusion ''The company is raising a venture fund'' =
       create_evaluation_result NOT_MET
         [Text ''Fund investment identified - excluded due to team bandwidth and 2025 objectives'']
   \<and> \<not> check_fund_investment ''The company makes pumps''
   \<and> check_direct_investment ''The company makes pumps''
   \<and> evaluate_asset_class_exclusion ''The company makes pumps'' =
       create_evaluation_result MET [Text ''Direct company investment identified'']
   \<and> \<not> check_fund_investment ''An opportunity''
   \<and> \<not> check_direct_investment ''An opportunity''
   \<and> evaluate_asset_class_exclusion ''An opportunity'' =
       create_evaluation_result NOT_MET [Text ''Asset class information unclear or absent'']"
proof -
  have a: "check_fund_investment ''The company is raising a venture fund''"
    and a': "check_direct_investment ''The company is raising a venture fund''"
    by code_simp+
  have b: "\<not> check_fund_investment ''The company makes pumps''"
    and b': "check_direct_investment ''The company makes pumps''"
    by code_simp+
  have c: "\<not> check_fund_investment ''An opportunity''"
    and c': "\<not> check_direct_investment ''An opportunity''"
    by code_simp+
  have ra: "evaluate_asset_class_exclusion ''The company is raising a venture fund'' =
       create_evaluation_result NOT_MET
         [Text ''Fund investment identified - excluded due to team bandwidth and 2025 objectives'']"
    using C8_asset_class_exclusion [of "''The company is raising a venture fund''"] a by blast
  have rb: "evaluate_asset_class_exclusion ''The company makes pumps'' =
       create_evaluation_result MET [Text ''Direct company investment identified'']"
    using C8_asset_class_exclusion [of "''The company makes pumps''"] b b' by blast
  have rc: "evaluate_asset_class_exclusion ''An opportunity'' =
       create_evaluation_result NOT_MET [Text ''Asset class information unclear or absent'']"
    using C8_asset_class_exclusion [of "''An opportunity''"] c c' by blast
  from a a' b b' c c' ra rb rc show ?thesis
    by blast
qed


section \<open>Fee terms\<close>

text \<open>
  C9: the Fee Terms criterion is MET if and only if the lower-cased text contains
  \<open>no management fee\<close> or \<open>no direct management fee\<close>. When \<open>management fee\<close> occurs
  without such a phrase the result is NOT MET as fees present, and when no fee wording
  occurs at all it is NOT MET as not mentioned. The evaluator returns a verdict on every
  text.
\<close>

theorem C9_fee_terms:
  "check_no_management_fees t =
     (py_in ''no management fee'' (lower t) \<or> py_in ''no direct management fee'' (lower t))
   \<and> (status (evaluate_fee_terms t) = MET \<longleftrightarrow> check_no_management_fees t)
   \<and> (check_no_management_fees t \<longrightarrow>
        evaluate_fee_terms t =
          create_evaluation_result MET
            [Text ''No direct management fees that would impact KV P&L''])
   \<and> (\<not> check_no_management_fees t \<and> py_in ''management fee'' (lower t) \<longrightarrow>
        evaluate_fee_terms t =
          create_evaluation_result NOT_MET
            [Text ''Management fees present that would hit KV P&L''])
   \<and> (\<not> check_no_management_fees t \<and> \<not> py_in ''management fee'' (lower t) \<longrightarrow>
        evaluate_fee_terms t =
          create_evaluation_result NOT_MET
            [Text ''Fee information not mentioned - missing information counts as red''])"
proof -
  have low1: "lower ''no management fee'' = ''no management fee''"
    and low2: "lower ''no direct management fee'' = ''no direct management fee''"
    and low3: "lower ''management fee'' = ''management fee''"
    by code_simp+
  have no_fee: "check_no_management_fees t =
     (py_in ''no management fee'' (lower t) \<or> py_in ''no direct management fee'' (lower t))"
    unfolding check_no_management_fees_def check_keywords_present_def Let_def
    by (simp only: list_ex_Cons_iff list_ex_Nil_iff low1 low2) simp
  have fee: "check_keywords_present t [''management fee''] = py_in ''management fee'' (lower t)"
    unfolding check_keywords_present_def Let_def
    by (simp only: list_ex_Cons_iff list_ex_Nil_iff low3) simp
  show ?thesis
    using no_fee
    by (simp add: evaluate_fee_terms_def check_management_fees_present_def Let_def
          status_create fee)
qed

theorem C9_fee_terms_witness:
  "check_no_management_fees ''There is No Management Fee''
   \<and> evaluate_fee_terms ''There is No Management Fee'' =
       create_evaluation_result MET
         [Text ''No direct management fees that would impact KV P&L'']
   \<and> \<not> check_no_management_fees ''A 2% management fee applies''
   \<and> py_in ''management fee'' (lower ''A 2% management fee applies'')
   \<and> evaluate_fee_terms ''A 2% management fee applies'' =
       create_evaluation_result NOT_MET
         [Text ''Management fees present that would hit KV P&L'']
   \<and> \<not> check_no_management_fees ''Terms to be agreed''
   \<and> \<not> py_in ''management fee'' (lower ''Terms to be agreed'')
   \<and> evaluate_fee_terms ''Terms to be agreed'' =
       create_evaluation_result NOT_MET
         [Text ''Fee information not mentioned - missing information counts as red'']"
proof -
  have a: "check_no_management_fees ''There is No Management Fee''"
    by code_simp
  have b: "\<not> check_no_management_fees ''A 2% management fee applies''"
    and b': "py_in ''management fee'' (lower ''A 2% management fee applies'')"
    by code_simp+
  have c: "\<not> check_no_management_fees ''Terms to be agreed''"
    and c': "\<not> py_in ''management fee'' (lower ''Terms to be agreed'')"
    by code_simp+
  have ra: "evaluate_fee_terms ''There is No Management Fee'' =
       create_evaluation_result MET
         [Text ''No direct management fees that would impact KV P&L'']"
    using C9_fee_terms [of "''There is No Management Fee''"] a by blast
  have rb: "evaluate_fee_terms ''A 2% management fee applies'' =
       create_evaluation_result NOT_MET
         [Text ''Management fees present that would hit KV P&L'']"
    using C9_fee_terms [of "''A 2% management fee applies''"] b b' by blast
  have rc: "evaluate_fee_terms ''Terms to be agreed'' =
       create_evaluation_result NOT_MET
         [Text ''Fee information not mentioned - missing information counts as red'']"
    using C9_fee_terms [of "''Terms to be agreed''"] c c' by blast
  from a b b' c c' ra rb rc show ?thesis
    by blast
qed

end
